theory Spec2Isabelle
  imports Complex_Main "HOL-Library.Word"
begin

section \<open>Axis motion of the wscan translation stage\<close>

text \<open>
  The development follows \<^verbatim>\<open>src/bin/wscan.c\<close>, which holds the scan program and,
  after it, the header \<^verbatim>\<open>wscan.h\<close> with the axis functions.

  A C \<^verbatim>\<open>int\<close> is a 32-bit two's complement value: comparisons are the signed ones
  (\<open><s\<close>, \<open>\<le>s\<close>) and \<open>sint\<close> reads the value. C leaves a signed result that does not
  fit undefined; the model gives \<open>+\<close>, \<open>-\<close> and \<open>*\<close> the result of the machine, which
  wraps around.
\<close>

type_synonym cint = "32 word"

text \<open>The C operator \<^verbatim>\<open>!\<close>.\<close>

definition lnot :: "cint \<Rightarrow> cint" where
  "lnot x = (if x = 0 then 1 else 0)"

subsection \<open>The device and what is sent to it\<close>

text \<open>
  The LabJack and the lconfig library are outside the repository. Every call into them is
  written to a trace, and a call whose result the program reads gets it from \<open>dev\<close>, a
  function of the whole history up to and including that call: any deterministic device.

  The argument of \<^verbatim>\<open>usleep\<close> is \<open>None\<close> where C leaves the conversion of the computed
  double to \<^verbatim>\<open>int\<close> undefined.
\<close>

datatype event =
    DirWrite string cint
  | UpdateEF "nat \<Rightarrow> cint"
  | Usleep "cint option"
  | Mkdir cint
  | PutMeta string cint
  | StreamStart
  | StreamIsComplete
  | StreamService
  | StreamStop
  | Fopen cint cint
  | DatafileInit
  | StreamIsEmpty
  | DatafileWrite
  | Fclose
  | StreamClean
  | LcClose

text \<open>
  Of \<^verbatim>\<open>lc_devconf_t\<close> the program touches \<^verbatim>\<open>efch[i].counts\<close> and reads
  \<^verbatim>\<open>effrequency\<close>. The count is a field of lconfig, kept here as its 32 bits. The
  frequency is a double in lconfig; the model takes whole numbers of Hz, for which the
  double quotient of the wait computation truncates to the same integer as the exact
  quotient: the dividend, a pulse count times \<open>10^6\<close>, is below \<open>2^53\<close>, so the rounding
  of the quotient cannot reach the next whole number.
\<close>

record world =
  efch_counts :: "nat \<Rightarrow> cint"
  effrequency :: int
  dev :: "event list \<Rightarrow> cint"
  trace :: "event list"

definition extcall :: "event \<Rightarrow> world \<Rightarrow> cint \<times> world" where
  "extcall e w = (let t = trace w @ [e] in (dev w t, w\<lparr>trace := t\<rparr>))"

definition emit :: "event \<Rightarrow> world \<Rightarrow> world" where
  "emit e w = w\<lparr>trace := trace w @ [e]\<rparr>"

definition LJM_eWriteName :: "string \<Rightarrow> cint \<Rightarrow> world \<Rightarrow> cint \<times> world" where
  "LJM_eWriteName name v w = extcall (DirWrite name v) w"

definition lc_update_ef :: "world \<Rightarrow> cint \<times> world" where
  "lc_update_ef w = extcall (UpdateEF (efch_counts w)) w"

definition usleep :: "cint option \<Rightarrow> world \<Rightarrow> world" where
  "usleep u w = emit (Usleep u) w"

subsection \<open>AxisIterator\<close>

text \<open>
  The struct \<^verbatim>\<open>AxisIterator_t\<close>. The pointer \<^verbatim>\<open>dconf\<close> is the world passed along;
  \<^verbatim>\<open>cal\<close> and \<^verbatim>\<open>units\<close> are read only when a position is printed and are left out.
  \<open>ax_dir\<close> and \<open>ax_index\<close> are the C fields \<^verbatim>\<open>_dir\<close> and \<^verbatim>\<open>_index\<close>.
\<close>

record axis =
  efch :: nat
  dregister :: string
  state :: cint
  steps :: cint
  niter :: cint
  dpos :: cint
  ax_dir :: cint
  ax_index :: cint

definition AX_SETTLE_US :: cint where
  "AX_SETTLE_US = 100000"

text \<open>C division of integers and conversion to \<^verbatim>\<open>int\<close> truncate towards zero.\<close>

definition trunc_quot :: "int \<Rightarrow> int \<Rightarrow> int" where
  "trunc_quot a b = sgn a * sgn b * (\<bar>a\<bar> div \<bar>b\<bar>)"

text \<open>
  \<^verbatim>\<open>(int)(psteps * 1e6 / effrequency) + AX_SETTLE_US\<close>. Division by zero gives an
  infinity, and a quotient outside the range of \<^verbatim>\<open>int\<close> has no defined conversion.
\<close>

definition auto_wait :: "cint \<Rightarrow> int \<Rightarrow> cint option" where
  "auto_wait psteps f =
     (if f = 0 then None
      else let t = trunc_quot (sint psteps * 1000000) f
           in if - (2 ^ 31) \<le> t \<and> t < 2 ^ 31 then Some (word_of_int t + AX_SETTLE_US)
              else None)"

text \<open>Lines 488 to 498 of \<^verbatim>\<open>ax_move\<close>, for a non-zero \<open>steps\<close>: direction bit and pulse count.\<close>

definition recode :: "axis \<Rightarrow> cint \<Rightarrow> cint \<times> cint" where
  "recode ax stp = (if stp <s 0 then (lnot (dpos ax), - stp) else (dpos ax, stp))"

text \<open>Lines 500 to 515: the two writes to the device, then the update of the position.\<close>

definition ax_command :: "axis \<Rightarrow> cint \<Rightarrow> cint \<Rightarrow> cint \<Rightarrow> world \<Rightarrow> cint \<times> axis \<times> world" where
  "ax_command ax stp dir psteps w =
     (let (err, w1) = LJM_eWriteName (dregister ax) dir w
      in if err \<noteq> 0 then (- 1, ax, w1)
         else let w2 = w1\<lparr>efch_counts := (efch_counts w1)(efch ax := psteps)\<rparr>;
                  (err2, w3) = lc_update_ef w2
              in if err2 \<noteq> 0 then (- 1, ax, w3)
                 else (0, ax\<lparr>state := state ax + stp\<rparr>, w3))"

text \<open>Lines 517 to 526: the wait.\<close>

definition ax_settle :: "cint \<Rightarrow> cint \<Rightarrow> world \<Rightarrow> world" where
  "ax_settle psteps wait_us w =
     (if wait_us <s 0 then usleep (auto_wait psteps (effrequency w)) w
      else if 0 <s wait_us then usleep (Some wait_us) w
      else w)"

definition ax_move :: "axis \<Rightarrow> cint \<Rightarrow> cint \<Rightarrow> world \<Rightarrow> cint \<times> axis \<times> world" where
  "ax_move ax stp wait_us w =
     (if stp = 0 then (0, ax, w)
      else let (dir, psteps) = recode ax stp;
               (rc, ax1, w1) = ax_command ax stp dir psteps w
           in if rc \<noteq> 0 then (rc, ax1, w1)
              else (0, ax1, ax_settle psteps wait_us w1))"

text \<open>\<^verbatim>\<open>ax_iter_start\<close> and \<^verbatim>\<open>ax_iter_repeat\<close> return 0 always; the model returns the axis.\<close>

definition ax_iter_start :: "axis \<Rightarrow> axis" where
  "ax_iter_start ax = ax\<lparr>ax_dir := 1, ax_index := - 1\<rparr>"

definition ax_iter_repeat :: "axis \<Rightarrow> axis" where
  "ax_iter_repeat ax = ax\<lparr>ax_dir := lnot (ax_dir ax), ax_index := - 1\<rparr>"

text \<open>The location \<^verbatim>\<open>ax_iter\<close> computes once the index has been incremented.\<close>

definition target :: "axis \<Rightarrow> cint" where
  "target ax = (if ax_dir ax \<noteq> 0 then ax_index ax * steps ax
                else (niter ax - ax_index ax) * steps ax)"

definition ax_iter :: "axis \<Rightarrow> cint \<Rightarrow> world \<Rightarrow> cint \<times> axis \<times> world" where
  "ax_iter ax wait_us w =
     (if niter ax \<le>s ax_index ax then (1, ax, w)
      else let ax1 = ax\<lparr>ax_index := ax_index ax + 1\<rparr>;
               distance = target ax1 - state ax1
           in ax_move ax1 distance wait_us w)"

text \<open>Calling \<^verbatim>\<open>ax_iter\<close> a number of times in a row, keeping every return value.\<close>

fun iter_calls :: "nat \<Rightarrow> cint \<Rightarrow> axis \<Rightarrow> world \<Rightarrow> cint list \<times> axis \<times> world" where
  "iter_calls 0 wait_us ax w = ([], ax, w)"
| "iter_calls (Suc n) wait_us ax w =
     (let (rc, ax1, w1) = ax_iter ax wait_us w;
          (rcs, ax2, w2) = iter_calls n wait_us ax1 w1
      in (rc # rcs, ax2, w2))"

subsection \<open>The scan: \<^verbatim>\<open>main\<close>, lines 243 to 329\<close>

text \<open>
  The calls into lconfig and the file system. Those whose result \<^verbatim>\<open>main\<close> tests ask the
  device; the others only leave their event. The slice directory is named by the z index
  and the data file by the z and x indices, which is what the events keep. The value of a
  position put into the meta store is \<^verbatim>\<open>state * cal\<close>; the event keeps the count.
  Messages printed on the terminal are not modelled.
\<close>

definition mkdir :: "cint \<Rightarrow> world \<Rightarrow> cint \<times> world" where
  "mkdir zi w = extcall (Mkdir zi) w"

definition lc_put_meta_flt :: "string \<Rightarrow> cint \<Rightarrow> world \<Rightarrow> cint \<times> world" where
  "lc_put_meta_flt name v w = extcall (PutMeta name v) w"

definition lc_stream_start :: "world \<Rightarrow> cint \<times> world" where
  "lc_stream_start w = extcall StreamStart w"

definition lc_stream_iscomplete :: "world \<Rightarrow> cint \<times> world" where
  "lc_stream_iscomplete w = extcall StreamIsComplete w"

definition lc_stream_service :: "world \<Rightarrow> cint \<times> world" where
  "lc_stream_service w = extcall StreamService w"

definition lc_stream_stop :: "world \<Rightarrow> world" where
  "lc_stream_stop w = emit StreamStop w"

definition fopen :: "cint \<Rightarrow> cint \<Rightarrow> world \<Rightarrow> cint \<times> world" where
  "fopen zi xi w = extcall (Fopen zi xi) w"

definition lc_datafile_init :: "world \<Rightarrow> world" where
  "lc_datafile_init w = emit DatafileInit w"

definition lc_stream_isempty :: "world \<Rightarrow> cint \<times> world" where
  "lc_stream_isempty w = extcall StreamIsEmpty w"

definition lc_datafile_write :: "world \<Rightarrow> world" where
  "lc_datafile_write w = emit DatafileWrite w"

definition fclose :: "world \<Rightarrow> world" where
  "fclose w = emit Fclose w"

definition lc_stream_clean :: "world \<Rightarrow> world" where
  "lc_stream_clean w = emit StreamClean w"

definition lc_close :: "world \<Rightarrow> world" where
  "lc_close w = emit LcClose w"

text \<open>
  How a block of \<^verbatim>\<open>main\<close> ends: control goes on to the next statement, with the
  variable \<^verbatim>\<open>err\<close> at the given value, or \<^verbatim>\<open>main\<close> returns.
\<close>

datatype flow = Next cint | Return cint

text \<open>Lines 272 to 276: the three writes are joined by \<^verbatim>\<open>||\<close>, so the first failure ends them.\<close>

definition put_xyz :: "axis \<Rightarrow> axis \<Rightarrow> world \<Rightarrow> world" where
  "put_xyz xaxis zaxis w =
     (let (e1, w1) = lc_put_meta_flt ''x'' (state xaxis) w
      in if e1 \<noteq> 0 then w1
         else let (e2, w2) = lc_put_meta_flt ''y'' 0 w1
              in if e2 \<noteq> 0 then w2
                 else snd (lc_put_meta_flt ''z'' (state zaxis) w2))"

text \<open>
  Lines 285 to 292. The loop ends when the device says so; \<open>None\<close> is a loop that never
  ends. The result is 0 when the burst is complete and \<open>- 1\<close> when servicing failed.
\<close>

partial_function (option) stream_loop :: "world \<Rightarrow> (cint \<times> world) option" where
  "stream_loop w =
     (let (c, w1) = lc_stream_iscomplete w
      in if c \<noteq> 0 then Some (0, w1)
         else let (e, w2) = lc_stream_service w1
              in if e \<noteq> 0 then Some (- 1, w2) else stream_loop w2)"

text \<open>Lines 305 and 306.\<close>

partial_function (option) write_loop :: "world \<Rightarrow> world option" where
  "write_loop w =
     (let (c, w1) = lc_stream_isempty w
      in if c \<noteq> 0 then Some w1 else write_loop (lc_datafile_write w1))"

text \<open>
  Lines 271 to 312, the body of the x loop after the message: a result other than 0 is the
  value \<^verbatim>\<open>main\<close> returns from inside the body.
\<close>

definition scan_point :: "axis \<Rightarrow> axis \<Rightarrow> world \<Rightarrow> (cint \<times> world) option" where
  "scan_point xaxis zaxis w =
     (let w1 = put_xyz xaxis zaxis w;
          (e, w2) = lc_stream_start w1
      in if e \<noteq> 0 then Some (- 1, lc_close w2)
         else Option.bind (stream_loop w2) (\<lambda>(r, w3).
           if r \<noteq> 0 then Some (- 1, lc_close (lc_stream_stop w3))
           else let w4 = lc_stream_stop w3;
                    (fd, w5) = fopen (ax_index zaxis) (ax_index xaxis) w4
                in if fd \<noteq> 0
                   then Option.bind (write_loop (lc_datafile_init w5)) (\<lambda>w6.
                          Some (0, lc_stream_clean (fclose w6)))
                   else Some (0, lc_stream_clean w5)))"

text \<open>Lines 264 to 314.\<close>

partial_function (option) x_loop ::
  "axis \<Rightarrow> axis \<Rightarrow> world \<Rightarrow> (flow \<times> axis \<times> world) option" where
  "x_loop xaxis zaxis w =
     (let (err, x1, w1) = ax_iter xaxis (- 1) w
      in if err \<noteq> 0 then Some (Next err, x1, w1)
         else Option.bind (scan_point x1 zaxis w1) (\<lambda>(r, w2).
                if r \<noteq> 0 then Some (Return r, x1, w2) else x_loop x1 zaxis w2))"

text \<open>Lines 247 to 318.\<close>

partial_function (option) z_loop ::
  "axis \<Rightarrow> axis \<Rightarrow> world \<Rightarrow> (flow \<times> axis \<times> axis \<times> world) option" where
  "z_loop xaxis zaxis w =
     (let (err, z1, w1) = ax_iter zaxis (- 1) w
      in if err \<noteq> 0 then Some (Next err, xaxis, z1, w1)
         else let (e, w2) = mkdir (ax_index z1) w1
              in if e \<noteq> 0 then Some (Return (- 1), xaxis, z1, lc_close w2)
                 else Option.bind (x_loop xaxis z1 w2) (\<lambda>(fl, x1, w3).
                        case fl of Return r \<Rightarrow> Some (Return r, x1, z1, w3)
                        | Next err' \<Rightarrow> z_loop (ax_iter_repeat x1) z1 w3))"

text \<open>Lines 243 to 329: the value returned, the two axes and the world at the end.\<close>

definition main_scan ::
  "axis \<Rightarrow> axis \<Rightarrow> world \<Rightarrow> (cint \<times> axis \<times> axis \<times> world) option" where
  "main_scan xaxis zaxis w =
     Option.bind (z_loop (ax_iter_start xaxis) (ax_iter_start zaxis) w) (\<lambda>(fl, x1, z1, w1).
       case fl of Return r \<Rightarrow> Some (r, x1, z1, w1)
       | Next err \<Rightarrow>
           let (r1, x2, w2) = ax_move x1 (- state x1) (- 1) w1;
               (r2, z2, w3) = ax_move z1 (- state z1) (- 1) w2
           in Some (0, x2, z2, lc_close w3))"

declare stream_loop.simps [code] write_loop.simps [code] x_loop.simps [code] z_loop.simps [code]

subsection \<open>Observations on a trace\<close>

definition is_Usleep :: "event \<Rightarrow> bool" where
  "is_Usleep e = (case e of Usleep u \<Rightarrow> True | _ \<Rightarrow> False)"

text \<open>The events a call has added to the trace.\<close>

definition added :: "world \<Rightarrow> world \<Rightarrow> event list" where
  "added w w' = drop (length (trace w)) (trace w')"



text \<open>The direction writes of a trace, in order: register and value.\<close>

fun dir_writes :: "event list \<Rightarrow> (string \<times> cint) list" where
  "dir_writes [] = []"
| "dir_writes (DirWrite r v # t) = (r, v) # dir_writes t"
| "dir_writes (e # t) = dir_writes t"



subsection \<open>The configuration shipped with the program\<close>

text \<open>
  What \<^verbatim>\<open>ax_init\<close> makes of the configuration file of the repository: the x axis on
  extended feature channel 0 with its direction on DIO1, 200 intervals of 50 pulses; the z
  axis on channel 1 with its direction on DIO3, 4 intervals of 200 pulses; pulses at 500 Hz.
\<close>

definition xaxis_conf :: axis where
  "xaxis_conf = \<lparr>efch = 0, dregister = ''DIO1'', state = 0, steps = 50, niter = 200,
                  dpos = 1, ax_dir = 1, ax_index = - 1\<rparr>"

definition zaxis_conf :: axis where
  "zaxis_conf = \<lparr>efch = 1, dregister = ''DIO3'', state = 0, steps = 200, niter = 4,
                  dpos = 1, ax_dir = 1, ax_index = - 1\<rparr>"

definition lab_world :: "(event list \<Rightarrow> cint) \<Rightarrow> world" where
  "lab_world d = \<lparr>efch_counts = (\<lambda>_. 0), effrequency = 500, dev = d, trace = []\<rparr>"

text \<open>Devices that fail at chosen calls; \<open>\<lambda>_. 0\<close> is the device on which every call succeeds.\<close>

definition writes_to :: "string \<Rightarrow> event list \<Rightarrow> nat" where
  "writes_to reg t =
     length (filter (\<lambda>e. case e of DirWrite r v \<Rightarrow> r = reg | _ \<Rightarrow> False) t)"

definition starts :: "event list \<Rightarrow> nat" where
  "starts t = length (filter (\<lambda>e. case e of StreamStart \<Rightarrow> True | _ \<Rightarrow> False) t)"

text \<open>
  Bursts are complete and buffers empty at the first question, files open, and every call
  succeeds but the \<open>k\<close>-th direction write to the register \<open>reg\<close> and the \<open>m\<close>-th start
  of a stream (counted from 1; 0 for never).
\<close>

definition dev_failing :: "string \<Rightarrow> nat \<Rightarrow> nat \<Rightarrow> event list \<Rightarrow> cint" where
  "dev_failing reg k m t =
     (case last t of
        DirWrite r v \<Rightarrow> if r = reg \<and> writes_to reg t = k then - 1 else 0
      | StreamStart \<Rightarrow> if starts t = m then - 1 else 0
      | StreamIsComplete \<Rightarrow> 1
      | StreamIsEmpty \<Rightarrow> 1
      | Fopen zi xi \<Rightarrow> 1
      | _ \<Rightarrow> 0)"

section \<open>Signed arithmetic on 32 bits\<close>



lemma sless_cases: "stp \<noteq> 0 \<Longrightarrow> \<not> stp <s 0 \<Longrightarrow> 0 <s (stp::cint)"
  by (metis signed.not_less_iff_gr_or_eq)



lemma sint_product:
  "- (2 ^ 31) \<le> sint (a::cint) * sint (b::cint) \<Longrightarrow> sint a * sint b < 2 ^ 31 \<Longrightarrow>
   sint (a * b) = sint a * sint b"
  by (simp add: sint_word_mult signed_take_bit_int_eq_self)

lemma sint_idx:
  assumes "j \<le> nat (sint (n::cint))" and "0 <s n"
  shows "sint (word_of_nat j - 1 :: cint) = int j - 1"
proof -
  have hi: "sint n < 2 ^ 31" using sint_lt [of n] by simp
  have jn: "int j \<le> sint n" using assms by (simp add: word_sless_alt)
  have "(word_of_nat j - 1 :: cint) = word_of_int (int j - 1)" by simp
  then have "sint (word_of_nat j - 1 :: cint) = signed_take_bit 31 (int j - 1)"
    by (simp only: sint_sbintrunc') simp
  also have "\<dots> = int j - 1" using hi jn by (intro signed_take_bit_int_eq_self) simp_all
  finally show ?thesis .
qed

lemma word_of_nat_sint: "0 <s (n::cint) \<Longrightarrow> word_of_nat (nat (sint n)) = n"
proof -
  assume "0 <s n"
  then have "0 \<le> sint n" by (simp add: word_sless_alt)
  then have "(word_of_nat (nat (sint n)) :: cint) = word_of_int (sint n)"
    by simp
  then show ?thesis by simp
qed

section \<open>What a move does\<close>

lemma recode_eq:
  "stp \<noteq> 0 \<Longrightarrow> recode ax stp =
     (if 0 <s stp then (dpos ax, stp) else (lnot (dpos ax), - stp))"
  using sless_cases [of stp] by (auto simp: recode_def dest: signed.less_asym)

lemma ax_move_unfold:
  "stp \<noteq> 0 \<Longrightarrow> ax_move ax stp wt w =
     (let d = fst (recode ax stp); p = snd (recode ax stp);
          t1 = trace w @ [DirWrite (dregister ax) d];
          tbl = (efch_counts w)(efch ax := p);
          t2 = t1 @ [UpdateEF tbl]
      in if dev w t1 \<noteq> 0 then (- 1, ax, w\<lparr>trace := t1\<rparr>)
         else if dev w t2 \<noteq> 0 then (- 1, ax, w\<lparr>efch_counts := tbl, trace := t2\<rparr>)
         else (0, ax\<lparr>state := state ax + stp\<rparr>,
               ax_settle p wt (w\<lparr>efch_counts := tbl, trace := t2\<rparr>)))"
  by (simp add: ax_move_def ax_command_def LJM_eWriteName_def lc_update_ef_def extcall_def
      Let_def split: prod.splits)

lemma ax_command_unfold:
  "ax_command ax stp d p w =
     (let t1 = trace w @ [DirWrite (dregister ax) d];
          tbl = (efch_counts w)(efch ax := p);
          t2 = t1 @ [UpdateEF tbl]
      in if dev w t1 \<noteq> 0 then (- 1, ax, w\<lparr>trace := t1\<rparr>)
         else if dev w t2 \<noteq> 0 then (- 1, ax, w\<lparr>efch_counts := tbl, trace := t2\<rparr>)
         else (0, ax\<lparr>state := state ax + stp\<rparr>, w\<lparr>efch_counts := tbl, trace := t2\<rparr>))"
  by (simp add: ax_command_def LJM_eWriteName_def lc_update_ef_def extcall_def
      Let_def split: prod.splits)

lemma ax_settle_trace:
  "trace (ax_settle p wt w) = trace w @
     (if wt <s 0 then [Usleep (auto_wait p (effrequency w))]
      else if 0 <s wt then [Usleep (Some wt)] else [])"
  by (simp add: ax_settle_def usleep_def emit_def)

lemma ax_settle_fields:
  "efch_counts (ax_settle p wt w) = efch_counts w"
  "effrequency (ax_settle p wt w) = effrequency w"
  "dev (ax_settle p wt w) = dev w"
  by (simp_all add: ax_settle_def usleep_def emit_def)

lemma ax_move_index: "ax_index (fst (snd (ax_move ax stp wt w))) = ax_index ax"
proof (cases "stp = 0")
  case True
  then show ?thesis by (simp add: ax_move_def)
next
  case False
  then show ?thesis by (simp add: ax_move_unfold Let_def)
qed


text \<open>Facts that evaluate a move on given numbers.\<close>

lemmas eval_defs = ax_move_unfold recode_eq xaxis_conf_def zaxis_conf_def lab_world_def
  ax_settle_def usleep_def emit_def auto_wait_def trunc_quot_def AX_SETTLE_US_def
  word_sless_alt word_sle_eq added_def is_Usleep_def Let_def lnot_def

section \<open>A sweep on a device that never fails\<close>

lemma ax_move_quiet:
  assumes "\<forall>t. dev w t = 0" and "ax_move ax stp wt w = (rc, ax', w')"
  shows "rc = 0 \<and> ax' = ax\<lparr>state := state ax + stp\<rparr> \<and> dev w' = dev w"
proof (cases "stp = 0")
  case True
  with assms(2) show ?thesis by (simp add: ax_move_def)
next
  case False
  with assms show ?thesis by (auto simp: ax_move_unfold Let_def ax_settle_fields)
qed

lemma ax_iter_quiet:
  assumes "\<forall>t. dev w t = 0" and "ax_index ax <s niter ax"
    and "ax_iter ax wt w = (rc, ax', w')"
  shows "rc = 0 \<and> dev w' = dev w \<and>
         ax' = ax\<lparr>ax_index := ax_index ax + 1,
                  state := target (ax\<lparr>ax_index := ax_index ax + 1\<rparr>)\<rparr>"
proof -
  let ?a = "ax\<lparr>ax_index := ax_index ax + 1\<rparr>"
  have n: "\<not> niter ax \<le>s ax_index ax" using assms(2) by (simp add: signed.not_le)
  have "ax_move ?a (target ?a - state ?a) wt w = (rc, ax', w')"
    using assms(3) n by (simp add: ax_iter_def Let_def)
  from ax_move_quiet [OF assms(1) this] show ?thesis by simp
qed

text \<open>
  After \<open>k\<close> calls that began at index \<open>j - 1\<close> the index is \<open>j + k - 1\<close> and the
  position is the target of that index, as long as the plan is not used up.
\<close>

lemma iter_calls_quiet:
  assumes "\<forall>t. dev w t = 0" and "0 <s niter ax"
    and "ax_index ax = word_of_nat j - 1" and "j + k \<le> nat (sint (niter ax)) + 1"
    and "iter_calls k wt ax w = (rcs, ax', w')"
  shows "rcs = replicate k 0 \<and> (\<forall>t. dev w' t = 0) \<and>
         ax' = (if k = 0 then ax
                else ax\<lparr>ax_index := word_of_nat (j + k) - 1,
                        state := target (ax\<lparr>ax_index := word_of_nat (j + k) - 1\<rparr>)\<rparr>)"
  using assms
proof (induction k arbitrary: ax w j rcs ax' w')
  case 0
  then show ?case by simp
next
  case (Suc k)
  obtain rc ax1 w1 where s1: "ax_iter ax wt w = (rc, ax1, w1)" by (cases "ax_iter ax wt w") auto
  obtain rcs2 ax2 w2 where s2: "iter_calls k wt ax1 w1 = (rcs2, ax2, w2)"
    by (cases "iter_calls k wt ax1 w1") auto
  from Suc.prems(5) s1 s2 have res: "rcs = rc # rcs2" "ax' = ax2" "w' = w2" by simp_all
  have jle: "j \<le> nat (sint (niter ax))" using Suc.prems(4) by simp
  have "sint (ax_index ax) = int j - 1" using Suc.prems(3) sint_idx [OF jle Suc.prems(2)] by simp
  moreover have "0 < sint (niter ax)" using Suc.prems(2) by (simp add: word_sless_alt)
  ultimately have lt: "ax_index ax <s niter ax" using jle by (simp add: word_sless_alt)
  from ax_iter_quiet [OF Suc.prems(1) lt s1]
  have rc: "rc = 0" and d1: "dev w1 = dev w"
    and a1: "ax1 = ax\<lparr>ax_index := ax_index ax + 1,
                      state := target (ax\<lparr>ax_index := ax_index ax + 1\<rparr>)\<rparr>"
    by simp_all
  have i1: "ax_index ax + 1 = word_of_nat (Suc j) - 1" using Suc.prems(3) by simp
  have q1: "\<forall>t. dev w1 t = 0" using d1 Suc.prems(1) by simp
  have n1: "0 <s niter ax1" using a1 Suc.prems(2) by simp
  have x1: "ax_index ax1 = word_of_nat (Suc j) - 1" using a1 i1 by simp
  have b1: "Suc j + k \<le> nat (sint (niter ax1)) + 1" using a1 Suc.prems(4) by simp
  from Suc.IH [OF q1 n1 x1 b1 s2]
  have ih: "rcs2 = replicate k 0" "\<forall>t. dev w2 t = 0"
    "ax2 = (if k = 0 then ax1
            else ax1\<lparr>ax_index := word_of_nat (Suc j + k) - 1,
                     state := target (ax1\<lparr>ax_index := word_of_nat (Suc j + k) - 1\<rparr>)\<rparr>)"
    by simp_all
  show ?case
  proof (cases "k = 0")
    case True
    with ih res rc a1 i1 show ?thesis by (simp add: target_def)
  next
    case False
    with ih res rc a1 show ?thesis by (simp add: target_def)
  qed
qed

lemma sweep_quiet:
  assumes "\<forall>t. dev w t = 0" and "0 <s niter ax" and "ax_index ax = - 1"
    and "iter_calls (nat (sint (niter ax)) + 1) wt ax w = (rcs, ax', w')"
  shows "rcs = replicate (nat (sint (niter ax)) + 1) 0 \<and> (\<forall>t. dev w' t = 0) \<and>
         ax' = ax\<lparr>ax_index := niter ax,
                  state := (if ax_dir ax \<noteq> 0 then niter ax * steps ax else 0)\<rparr>"
proof -
  have i0: "ax_index ax = word_of_nat 0 - 1" using assms(3) by simp
  have b: "0 + (nat (sint (niter ax)) + 1) \<le> nat (sint (niter ax)) + 1" by simp
  have e: "(word_of_nat (0 + (nat (sint (niter ax)) + 1)) - 1 :: cint) = niter ax"
    using word_of_nat_sint [OF assms(2)] by simp
  from iter_calls_quiet [OF assms(1,2) i0 b assms(4)] show ?thesis
    unfolding e by (simp add: target_def)
qed

lemma start_fields:
  "ax_index (ax_iter_start ax) = - 1" "ax_dir (ax_iter_start ax) = 1"
  "niter (ax_iter_start ax) = niter ax" "steps (ax_iter_start ax) = steps ax"
  "state (ax_iter_start ax) = state ax"
  by (simp_all add: ax_iter_start_def)

lemma repeat_fields:
  "ax_index (ax_iter_repeat ax) = - 1" "ax_dir (ax_iter_repeat ax) = lnot (ax_dir ax)"
  "niter (ax_iter_repeat ax) = niter ax" "steps (ax_iter_repeat ax) = steps ax"
  "state (ax_iter_repeat ax) = state ax"
  by (simp_all add: ax_iter_repeat_def)

lemma replicate_201: "replicate 201 (0::cint) = 0 # replicate 200 0"
proof -
  have s: "(201::nat) = Suc 200" by simp
  show ?thesis by (simp only: s replicate_Suc)
qed

section \<open>How the scan ends\<close>






section \<open>The claims\<close>

text \<open>
  C1. A call of \<^verbatim>\<open>ax_iter\<close> with the index at or beyond \<^verbatim>\<open>niter\<close> returns 1 and leaves the
  axis and the world as they were, so nothing is sent to the device. Any other call adds one
  to the index and hands to \<^verbatim>\<open>ax_move\<close>, with the caller's wait, the difference between
  the target and the position, where the target is the new index times \<^verbatim>\<open>steps\<close> when
  \<^verbatim>\<open>_dir\<close> is set and \<^verbatim>\<open>niter\<close> less the new index, times \<^verbatim>\<open>steps\<close>, when it is not. The
  index is one more in the axis that comes back, whatever the move did.
\<close>

theorem ax_iter_step:
  "ax_iter ax wt w =
     (if niter ax \<le>s ax_index ax then (1, ax, w)
      else ax_move (ax\<lparr>ax_index := ax_index ax + 1\<rparr>)
             ((if ax_dir ax \<noteq> 0 then (ax_index ax + 1) * steps ax
               else (niter ax - (ax_index ax + 1)) * steps ax) - state ax) wt w) \<and>
   ax_index (fst (snd (ax_iter ax wt w))) =
     (if niter ax \<le>s ax_index ax then ax_index ax else ax_index ax + 1)"
  by (simp add: ax_iter_def target_def Let_def ax_move_index)

text \<open>
  C2. With \<^verbatim>\<open>niter\<close> positive and a device that never fails, \<^verbatim>\<open>ax_iter_start\<close> followed
  by \<^verbatim>\<open>niter + 1\<close> calls of \<^verbatim>\<open>ax_iter\<close> gives 0 at every call and ends at position
  \<^verbatim>\<open>niter * steps\<close>, and the call after those returns 1 and changes nothing. The product is
  the C one, on 32 bits; where the product of the two numbers fits an \<^verbatim>\<open>int\<close> it is also
  the position read as a number. The position before the start plays no part, so the
  statement covers the iterator fresh from \<^verbatim>\<open>ax_init\<close>, at position 0.
\<close>

theorem full_sweep:
  assumes "0 <s niter ax" and "\<forall>t. dev w t = 0"
    and "iter_calls (nat (sint (niter ax)) + 1) wt (ax_iter_start ax) w = (rcs, ax', w')"
  shows "rcs = replicate (nat (sint (niter ax)) + 1) 0 \<and>
         state ax' = niter ax * steps ax \<and>
         (- (2 ^ 31) \<le> sint (niter ax) * sint (steps ax) \<and>
          sint (niter ax) * sint (steps ax) < 2 ^ 31 \<longrightarrow>
            sint (state ax') = sint (niter ax) * sint (steps ax)) \<and>
         ax_iter ax' wt w' = (1, ax', w')"
proof -
  have n: "0 <s niter (ax_iter_start ax)" using assms(1) by (simp add: start_fields)
  have e: "iter_calls (nat (sint (niter (ax_iter_start ax))) + 1) wt (ax_iter_start ax) w =
             (rcs, ax', w')"
    using assms(3) by (simp add: start_fields)
  from sweep_quiet [OF assms(2) n start_fields(1) e]
  have r: "rcs = replicate (nat (sint (niter ax)) + 1) 0"
    and a: "ax' = (ax_iter_start ax)\<lparr>ax_index := niter ax, state := niter ax * steps ax\<rparr>"
    by (simp_all add: start_fields)
  have x: "ax_iter ax' wt w' = (1, ax', w')"
    unfolding a by (simp add: ax_iter_def start_fields)
  show ?thesis using r a x by (simp add: sint_product)
qed

text \<open>
  The scenario of the specification: 200 intervals of 50 pulses end at 10000 pulses after
  201 calls, all of which return 0.
\<close>

theorem full_sweep_witness:
  "0 <s niter xaxis_conf \<and> (\<forall>t. dev (lab_world (\<lambda>_. 0)) t = 0) \<and>
   (let (rcs, ax', w') = iter_calls 201 (- 1) (ax_iter_start xaxis_conf) (lab_world (\<lambda>_. 0))
    in rcs = replicate 201 0 \<and> state ax' = 10000 \<and> sint (state ax') = 200 * 50 \<and>
       ax_iter ax' (- 1) w' = (1, ax', w'))"
proof -
  obtain rcs ax' w' where
    e: "iter_calls 201 (- 1) (ax_iter_start xaxis_conf) (lab_world (\<lambda>_. 0)) = (rcs, ax', w')"
    by (cases "iter_calls 201 (- 1) (ax_iter_start xaxis_conf) (lab_world (\<lambda>_. 0))") auto
  have h1: "0 <s niter xaxis_conf" by (simp add: xaxis_conf_def word_sless_alt)
  have h2: "\<forall>t. dev (lab_world (\<lambda>_. 0)) t = 0" by (simp add: lab_world_def)
  have k: "nat (sint (niter xaxis_conf)) + 1 = 201" by (simp add: xaxis_conf_def)
  have e': "iter_calls (nat (sint (niter xaxis_conf)) + 1) (- 1) (ax_iter_start xaxis_conf)
              (lab_world (\<lambda>_. 0)) = (rcs, ax', w')"
    using e by (simp only: k)
  from full_sweep [OF h1 h2 e'] have
    "rcs = replicate 201 0 \<and> state ax' = 10000 \<and> sint (state ax') = 200 * 50 \<and>
     ax_iter ax' (- 1) w' = (1, ax', w')"
    by (simp add: k replicate_201) (simp add: xaxis_conf_def)
  with h1 h2 e show ?thesis by simp
qed

text \<open>
  C3, as the specification states it, fails: the targets are counted from position 0, not from the
  position at the start. An axis of the shipped configuration that was moved by 7 pulses,
  then started, swept, repeated and swept back, ends at 0 and not at 7.
\<close>

theorem round_trip_counterexample:
  "(let (r, a7, w7) = ax_move xaxis_conf 7 0 (lab_world (\<lambda>_. 0));
        (rcs1, ax1, w1) = iter_calls 201 (- 1) (ax_iter_start a7) w7;
        (rcs2, ax2, w2) = iter_calls 201 (- 1) (ax_iter_repeat ax1) w1
    in r = 0 \<and> state a7 = 7 \<and> rcs1 = replicate 201 0 \<and> ax_iter ax1 (- 1) w1 = (1, ax1, w1) \<and>
       rcs2 = replicate 201 0 \<and> state ax2 = 0 \<and> state ax2 \<noteq> state a7)"
proof -
  let ?w = "lab_world (\<lambda>_. 0)"
  let ?a7 = "xaxis_conf\<lparr>state := 7\<rparr>"
  let ?w7 = "\<lparr>efch_counts = (\<lambda>_. 0)(0 := 7), effrequency = 500, dev = \<lambda>_. 0,
        trace = [DirWrite ''DIO1'' 1, UpdateEF ((\<lambda>_. 0)(0 := 7))]\<rparr>"
  have m: "ax_move xaxis_conf 7 0 ?w = (0, ?a7, ?w7)" by (simp add: eval_defs)
  obtain rcs1 ax1 w1 where
    e1: "iter_calls 201 (- 1) (ax_iter_start ?a7) ?w7 = (rcs1, ax1, w1)"
    by (cases "iter_calls 201 (- 1) (ax_iter_start ?a7) ?w7") auto
  obtain rcs2 ax2 w2 where
    e2: "iter_calls 201 (- 1) (ax_iter_repeat ax1) w1 = (rcs2, ax2, w2)"
    by (cases "iter_calls 201 (- 1) (ax_iter_repeat ax1) w1") auto
  have q: "\<forall>t. dev ?w7 t = 0" by simp
  have k: "nat (sint (niter (ax_iter_start ?a7))) + 1 = 201"
    by (simp add: xaxis_conf_def start_fields)
  have n: "0 <s niter (ax_iter_start ?a7)"
    by (simp add: xaxis_conf_def start_fields word_sless_alt)
  have e1': "iter_calls (nat (sint (niter (ax_iter_start ?a7))) + 1) (- 1) (ax_iter_start ?a7) ?w7
      = (rcs1, ax1, w1)"
    using e1 by (simp only: k)
  from sweep_quiet [OF q n start_fields(1) e1']
  have r1: "rcs1 = replicate 201 0" and q1: "\<forall>t. dev w1 t = 0"
    and a1: "ax1 = (ax_iter_start ?a7)\<lparr>ax_index := 200, state := 10000\<rparr>"
    by (simp_all only: k) (simp_all add: xaxis_conf_def start_fields)
  have x: "ax_iter ax1 (- 1) w1 = (1, ax1, w1)"
    unfolding a1 by (simp add: ax_iter_def start_fields xaxis_conf_def)
  have k2: "nat (sint (niter (ax_iter_repeat ax1))) + 1 = 201"
    unfolding a1 by (simp add: xaxis_conf_def start_fields repeat_fields)
  have n2: "0 <s niter (ax_iter_repeat ax1)"
    unfolding a1 by (simp add: xaxis_conf_def start_fields repeat_fields word_sless_alt)
  have e2': "iter_calls (nat (sint (niter (ax_iter_repeat ax1))) + 1) (- 1) (ax_iter_repeat ax1) w1
      = (rcs2, ax2, w2)"
    using e2 by (simp only: k2)
  from sweep_quiet [OF q1 n2 repeat_fields(1) e2']
  have r2: "rcs2 = replicate 201 0" and s2: "state ax2 = 0"
    by (simp_all only: k2) (simp_all add: a1 repeat_fields start_fields lnot_def)
  show ?thesis using m e1 e2 r1 x r2 s2 by simp
qed

text \<open>
  C3, amended. With \<^verbatim>\<open>niter\<close> positive and a device that never fails: after
  \<^verbatim>\<open>ax_iter_start\<close> and \<^verbatim>\<open>niter + 1\<close> calls the plan is used up (the next call returns 1);
  \<^verbatim>\<open>ax_iter_repeat\<close> and another \<^verbatim>\<open>niter + 1\<close> calls then all return 0 and end at
  position 0. That is the position before the start whenever the axis was started at
  position 0, as it is straight after \<^verbatim>\<open>ax_init\<close>.
\<close>

theorem sweep_and_back:
  assumes "0 <s niter ax" and "\<forall>t. dev w t = 0"
    and "iter_calls (nat (sint (niter ax)) + 1) wt (ax_iter_start ax) w = (rcs1, ax1, w1)"
    and "iter_calls (nat (sint (niter ax)) + 1) wt (ax_iter_repeat ax1) w1 = (rcs2, ax2, w2)"
  shows "ax_iter ax1 wt w1 = (1, ax1, w1) \<and>
         rcs2 = replicate (nat (sint (niter ax)) + 1) 0 \<and>
         state ax2 = 0 \<and>
         (state ax = 0 \<longrightarrow> state ax2 = state ax)"
proof -
  have n: "0 <s niter (ax_iter_start ax)" using assms(1) by (simp add: start_fields)
  have e: "iter_calls (nat (sint (niter (ax_iter_start ax))) + 1) wt (ax_iter_start ax) w =
             (rcs1, ax1, w1)"
    using assms(3) by (simp add: start_fields)
  from sweep_quiet [OF assms(2) n start_fields(1) e]
  have q1: "\<forall>t. dev w1 t = 0"
    and a1: "ax1 = (ax_iter_start ax)\<lparr>ax_index := niter ax, state := niter ax * steps ax\<rparr>"
    by (simp_all add: start_fields)
  have x: "ax_iter ax1 wt w1 = (1, ax1, w1)"
    unfolding a1 by (simp add: ax_iter_def start_fields)
  have n1: "niter ax1 = niter ax" and d1: "ax_dir ax1 = 1"
    unfolding a1 by (simp_all add: start_fields)
  have n2: "0 <s niter (ax_iter_repeat ax1)" using assms(1) n1 by (simp add: repeat_fields)
  have e2: "iter_calls (nat (sint (niter (ax_iter_repeat ax1))) + 1) wt (ax_iter_repeat ax1) w1 =
              (rcs2, ax2, w2)"
    using assms(4) n1 by (simp add: repeat_fields)
  from sweep_quiet [OF q1 n2 repeat_fields(1) e2]
  have r2: "rcs2 = replicate (nat (sint (niter ax)) + 1) 0" and s2: "state ax2 = 0"
    by (simp_all add: repeat_fields n1 d1 lnot_def)
  show ?thesis using x r2 s2 by simp
qed

text \<open>The x axis of the shipped configuration, from position 0 there and back.\<close>

theorem sweep_and_back_witness:
  "0 <s niter xaxis_conf \<and> (\<forall>t. dev (lab_world (\<lambda>_. 0)) t = 0) \<and>
   (let (rcs1, ax1, w1) = iter_calls 201 (- 1) (ax_iter_start xaxis_conf) (lab_world (\<lambda>_. 0));
        (rcs2, ax2, w2) = iter_calls 201 (- 1) (ax_iter_repeat ax1) w1
    in ax_iter ax1 (- 1) w1 = (1, ax1, w1) \<and> state ax2 = 0 \<and> state ax2 = state xaxis_conf)"
proof -
  let ?w = "lab_world (\<lambda>_. 0)"
  obtain rcs1 ax1 w1 where
    e1: "iter_calls 201 (- 1) (ax_iter_start xaxis_conf) ?w = (rcs1, ax1, w1)"
    by (cases "iter_calls 201 (- 1) (ax_iter_start xaxis_conf) ?w") auto
  obtain rcs2 ax2 w2 where
    e2: "iter_calls 201 (- 1) (ax_iter_repeat ax1) w1 = (rcs2, ax2, w2)"
    by (cases "iter_calls 201 (- 1) (ax_iter_repeat ax1) w1") auto
  have h1: "0 <s niter xaxis_conf" by (simp add: xaxis_conf_def word_sless_alt)
  have h2: "\<forall>t. dev ?w t = 0" by (simp add: lab_world_def)
  have k: "nat (sint (niter xaxis_conf)) + 1 = 201" by (simp add: xaxis_conf_def)
  have s0: "state xaxis_conf = 0" by (simp add: xaxis_conf_def)
  have e1': "iter_calls (nat (sint (niter xaxis_conf)) + 1) (- 1) (ax_iter_start xaxis_conf) ?w
      = (rcs1, ax1, w1)"
    using e1 by (simp only: k)
  have e2': "iter_calls (nat (sint (niter xaxis_conf)) + 1) (- 1) (ax_iter_repeat ax1) w1
      = (rcs2, ax2, w2)"
    using e2 by (simp only: k)
  from sweep_and_back [OF h1 h2 e1' e2']
  have "ax_iter ax1 (- 1) w1 = (1, ax1, w1) \<and> state ax2 = 0 \<and> state ax2 = state xaxis_conf"
    by (simp add: s0)
  with h1 h2 e1 e2 s0 show ?thesis by simp
qed



text \<open>
  C5. When the write of the direction or the update of the pulse outputs fails, the move
  returns \<open>- 1\<close>, the axis is as it was and no wait was asked for. In every other case it
  returns 0 and the position has grown by the steps; for steps other than 0 the axis that
  is returned is the one the command block (the two writes and the update of the position)
  hands on, and the wait that follows works on the world alone.
\<close>

theorem ax_move_atomic:
  assumes "ax_move ax stp wt w = (rc, ax', w')"
  shows "let (d, p) = recode ax stp;
             t1 = trace w @ [DirWrite (dregister ax) d];
             t2 = t1 @ [UpdateEF ((efch_counts w)(efch ax := p))]
         in if stp \<noteq> 0 \<and> (dev w t1 \<noteq> 0 \<or> dev w t2 \<noteq> 0)
            then rc = - 1 \<and> ax' = ax \<and> filter is_Usleep (added w w') = []
            else rc = 0 \<and> ax' = ax\<lparr>state := state ax + stp\<rparr> \<and>
                 (stp \<noteq> 0 \<longrightarrow>
                    (\<exists>w2. ax_command ax stp d p w = (0, ax\<lparr>state := state ax + stp\<rparr>, w2) \<and>
                          w' = ax_settle p wt w2))"
proof (cases "stp = 0")
  case True
  with assms show ?thesis by (simp add: ax_move_def split: prod.splits)
next
  case False
  with assms show ?thesis
    by (auto simp: ax_move_unfold ax_command_unfold Let_def added_def is_Usleep_def
        split: prod.splits if_splits)
qed

text \<open>A move of 50 steps whose direction write fails, and the same move on a sound device.\<close>

theorem ax_move_atomic_witness:
  "ax_move xaxis_conf 50 (- 1) (lab_world (dev_failing ''DIO1'' 1 0)) =
     (- 1, xaxis_conf, (lab_world (dev_failing ''DIO1'' 1 0))\<lparr>trace := [DirWrite ''DIO1'' 1]\<rparr>) \<and>
   filter is_Usleep (added (lab_world (dev_failing ''DIO1'' 1 0))
     ((lab_world (dev_failing ''DIO1'' 1 0))\<lparr>trace := [DirWrite ''DIO1'' 1]\<rparr>)) = [] \<and>
   ax_move xaxis_conf 50 (- 1) (lab_world (\<lambda>_. 0)) =
     (0, xaxis_conf\<lparr>state := 50\<rparr>,
      \<lparr>efch_counts = (\<lambda>_. 0)(0 := 50), effrequency = 500, dev = \<lambda>_. 0,
        trace = [DirWrite ''DIO1'' 1, UpdateEF ((\<lambda>_. 0)(0 := 50)), Usleep (Some 200000)]\<rparr>)"
  using ax_move_atomic [of xaxis_conf 50 "- 1" "lab_world (dev_failing ''DIO1'' 1 0)" "- 1"
      xaxis_conf "(lab_world (dev_failing ''DIO1'' 1 0))\<lparr>trace := [DirWrite ''DIO1'' 1]\<rparr>"]
  by (simp add: eval_defs dev_failing_def writes_to_def)

text \<open>
  C6. A move of zero steps returns 0 at once, whatever the wait argument: nothing is sent
  to the device, nothing is waited for, and the axis (so its position) is as it was.
\<close>

theorem ax_move_zero_noop: "ax_move ax 0 wait_us w = (0, ax, w)"
  by (simp add: ax_move_def)




text \<open>
  C8. The shipped configuration on a device that fails at the fourth write of the x
  direction, which is the fifth x step of the first slice (the first step moves nothing),
  and at the fifth start of a burst. The x loop ends at the failed step as if the plan were
  used up: the z axis is then moved on to 200, the x axis is sent from 150 to 10000 for the
  sweep back, and only the burst that cannot be started ends the program. Six direction
  writes were made, two of them after the one that failed.
\<close>

theorem scan_goes_on_after_motion_error:
  "map_option (\<lambda>(rc, x, z, w). (rc, state x, state z, dir_writes (trace w)))
     (main_scan xaxis_conf zaxis_conf (lab_world (dev_failing ''DIO1'' 4 5))) =
   Some (- 1, 10000, 200,
     [(''DIO1'', 1), (''DIO1'', 1), (''DIO1'', 1), (''DIO1'', 1), (''DIO3'', 1), (''DIO1'', 1)])"
  by code_simp




text \<open>
  C10. Two moves that differ in the wait argument alone return the same value, leave the
  same axis (so the same position) and the same pulse counts, and send the same events to
  the device once the waits are taken out of the trace.
\<close>

theorem wait_noninterference:
  "fst (ax_move ax stp wt1 w) = fst (ax_move ax stp wt2 w) \<and>
   fst (snd (ax_move ax stp wt1 w)) = fst (snd (ax_move ax stp wt2 w)) \<and>
   filter (\<lambda>e. \<not> is_Usleep e) (trace (snd (snd (ax_move ax stp wt1 w)))) =
   filter (\<lambda>e. \<not> is_Usleep e) (trace (snd (snd (ax_move ax stp wt2 w)))) \<and>
   efch_counts (snd (snd (ax_move ax stp wt1 w))) = efch_counts (snd (snd (ax_move ax stp wt2 w)))"
proof (cases "stp = 0")
  case True
  then show ?thesis by (simp add: ax_move_def)
next
  case False
  then show ?thesis
    by (simp add: ax_move_unfold Let_def ax_settle_trace ax_settle_fields is_Usleep_def)
qed

end
